theory Spec2Isabelle
  imports
    Complex_Main
    "HOL-Library.Char_ord"
    "HOL-Library.List_Lexorder"
    "HOL-Library.Product_Lexorder"
begin

section \<open>Conventions\<close>

text \<open>
  Python \<open>float\<close> values are modelled as \<^typ>\<open>real\<close>: the arithmetic is exact and
  rounding is not part of the model. Every concrete input used below is a dyadic rational
  or a small integer, on which the float operations of the source are exact as well.
  Python \<open>int\<close> is \<^typ>\<open>int\<close>, \<open>str\<close> is \<^typ>\<open>string\<close>, a \<open>dict\<close> is a map.
  An exception is a value: functions that can raise return a sum or an option.
  Wall-clock time (\<open>int(time.time())\<close>), random draws and the ledger are inputs.
\<close>

section \<open>src/core/aggregator.py\<close>

subsection \<open>Data\<close>

text \<open>The dataclass \<open>SensorReading\<close>; the field \<open>value\<close> is named \<open>reading_value\<close>.\<close>

record SensorReading =
  reading_value :: real
  timestamp :: int
  node_id :: string
  signature :: string

text \<open>
  The exceptions that can leave \<open>aggregate_readings\<close>, one constructor per raise site:
  \<^item> \<open>ValueError_min_nodes\<close>: \<open>raise ValueError("Minimum {min_nodes} ... requis")\<close>, line 29;
  \<^item> \<open>ConsensusError_outliers\<close>: \<open>raise ConsensusError("Trop d'outliers ...")\<close>, line 39;
  \<^item> \<open>ConsensusError_no_consensus\<close>: \<open>raise ConsensusError("Pas de consensus ...")\<close>, line 43;
  \<^item> \<open>StatisticsError\<close>: \<open>statistics.median\<close> of an empty list, line 46;
  \<^item> \<open>ValueError_max_empty\<close>: \<open>max\<close> of an empty generator, line 51.
\<close>

datatype error =
    ValueError_min_nodes int
  | ConsensusError_outliers
  | ConsensusError_no_consensus
  | StatisticsError
  | ValueError_max_empty

text \<open>The exception class of each error value.\<close>

datatype exception_class = ValueError | ConsensusError | OtherStatisticsError

fun class_of :: "error \<Rightarrow> exception_class" where
  "class_of (ValueError_min_nodes n) = ValueError"
| "class_of ConsensusError_outliers = ConsensusError"
| "class_of ConsensusError_no_consensus = ConsensusError"
| "class_of StatisticsError = OtherStatisticsError"
| "class_of ValueError_max_empty = ValueError"

text \<open>The attributes that \<open>DataAggregator.__init__\<close> reads from the configuration.\<close>

record DataAggregator =
  consensus_threshold :: real
  outlier_tolerance :: real
  min_nodes :: int

text \<open>The configuration when the dictionary has none of the three keys.\<close>

definition default_aggregator :: DataAggregator where
  "default_aggregator =
     \<lparr>consensus_threshold = 0.8, outlier_tolerance = 0.05, min_nodes = 3\<rparr>"

text \<open>The dictionary that \<open>aggregate_readings\<close> returns (the constant method tag left out).\<close>

record ConsensusResult =
  result_value :: real
  result_timestamp :: int
  confidence :: real
  nodes_participated :: nat
  outliers_removed :: int

subsection \<open>Helpers of the Python runtime\<close>

text \<open>\<open>xs[i]\<close> for \<open>i \<ge> 0\<close>: \<open>None\<close> is IndexError.\<close>

definition py_index :: "'a list \<Rightarrow> nat \<Rightarrow> 'a option" where
  "py_index xs i = (if i < length xs then Some (xs ! i) else None)"

text \<open>\<open>statistics.median\<close>: \<open>None\<close> is StatisticsError (no data points).\<close>

definition median :: "real list \<Rightarrow> real option" where
  "median xs =
     (let s = sort xs; n = length s in
      if n = 0 then None
      else if n mod 2 = 1 then Some (s ! (n div 2))
      else Some ((s ! (n div 2 - 1) + s ! (n div 2)) / 2))"

text \<open>\<open>statistics.mean\<close> and \<open>statistics.variance\<close> (sample variance, at least two points).\<close>

definition mean :: "real list \<Rightarrow> real option" where
  "mean xs = (if xs = [] then None else Some (sum_list xs / real (length xs)))"

definition variance :: "real list \<Rightarrow> real option" where
  "variance xs =
     (if length xs < 2 then None
      else let m = sum_list xs / real (length xs) in
        Some (sum_list (map (\<lambda>x. (x - m)\<^sup>2) xs) / real (length xs - 1)))"

text \<open>\<open>max\<close> over a generator of integers: \<open>None\<close> is ValueError (empty sequence).\<close>

fun py_max :: "int list \<Rightarrow> int option" where
  "py_max [] = None"
| "py_max (x # xs) = Some (fold max xs x)"

subsection \<open>\<open>validate_signatures\<close>\<close>

definition validate_signatures :: "SensorReading list \<Rightarrow> SensorReading list" where
  "validate_signatures readings = filter (\<lambda>reading. length (signature reading) = 64) readings"

subsection \<open>\<open>remove_outliers\<close>\<close>

text \<open>
  The body of the \<open>try\<close> block reads \<open>sorted_values[q1_idx]\<close> and \<open>sorted_values[q3_idx]\<close>;
  an IndexError there is caught by \<open>except Exception\<close>, which returns \<open>values\<close>.
\<close>

definition remove_outliers :: "real list \<Rightarrow> real list" where
  "remove_outliers vals =
     (if length vals < 4 then vals
      else
        let sorted_values = sort vals;
            n = length sorted_values;
            q1_idx = n div 4;
            q3_idx = 3 * n div 4
        in case py_index sorted_values q1_idx of
             None \<Rightarrow> vals
           | Some q1 \<Rightarrow>
              (case py_index sorted_values q3_idx of
                 None \<Rightarrow> vals
               | Some q3 \<Rightarrow>
                  let iqr = q3 - q1;
                      lower_bound = q1 - 1.5 * iqr;
                      upper_bound = q3 + 1.5 * iqr;
                      filtered = filter (\<lambda>v. lower_bound \<le> v \<and> v \<le> upper_bound) vals
                  in if filtered \<noteq> [] then filtered else vals))"

subsection \<open>\<open>check_consensus\<close>\<close>

text \<open>The local \<open>threshold\<close> of \<open>check_consensus\<close>, for the median \<open>m\<close>.\<close>

definition tolerance :: "DataAggregator \<Rightarrow> real \<Rightarrow> real" where
  "tolerance self m = (if m = 0 then 0.1 else \<bar>m * outlier_tolerance self\<bar>)"

text \<open>The local \<open>within_threshold\<close> of \<open>check_consensus\<close>.\<close>

definition within_threshold :: "DataAggregator \<Rightarrow> real \<Rightarrow> real list \<Rightarrow> real list" where
  "within_threshold self m vals = filter (\<lambda>v. \<bar>v - m\<bar> \<le> tolerance self m) vals"

text \<open>
  The local \<open>consensus_ratio\<close> of \<open>check_consensus\<close>; it is computed only for a list with
  a median, and is 0 here for the empty list.
\<close>

definition consensus_ratio :: "DataAggregator \<Rightarrow> real list \<Rightarrow> real" where
  "consensus_ratio self vals =
     (case median vals of
        None \<Rightarrow> 0
      | Some m \<Rightarrow> real (length (within_threshold self m vals)) / real (length vals))"

definition check_consensus :: "DataAggregator \<Rightarrow> real list \<Rightarrow> bool" where
  "check_consensus self vals =
     (if vals = [] then False
      else if length vals = 1 then True
      else case median vals of
             None \<Rightarrow> False
           | Some m \<Rightarrow> consensus_threshold self \<le> consensus_ratio self vals)"

subsection \<open>\<open>calculate_confidence\<close>\<close>

definition calculate_confidence :: "real list \<Rightarrow> real" where
  "calculate_confidence vals =
     (if length vals \<le> 1 then 1
      else case (mean vals, variance vals) of
             (Some mean_val, Some var) \<Rightarrow>
               let cv = (if mean_val = 0 then 0 else sqrt var / \<bar>mean_val\<bar>)
               in max 0 (min 1 (1 - cv))
           | _ \<Rightarrow> 0.5)"

subsection \<open>\<open>aggregate_readings\<close>\<close>

definition aggregate_readings ::
  "DataAggregator \<Rightarrow> SensorReading list \<Rightarrow> error + ConsensusResult" where
  "aggregate_readings self readings =
     (if int (length readings) < min_nodes self then Inl (ValueError_min_nodes (min_nodes self))
      else
        let validated_readings = validate_signatures readings;
            vals = map reading_value validated_readings;
            filtered_values = remove_outliers vals
        in if int (length filtered_values) < min_nodes self then Inl ConsensusError_outliers
           else if \<not> check_consensus self filtered_values then Inl ConsensusError_no_consensus
           else case median filtered_values of
                  None \<Rightarrow> Inl StatisticsError
                | Some final_value \<Rightarrow>
                   (case py_max (map timestamp validated_readings) of
                      None \<Rightarrow> Inl ValueError_max_empty
                    | Some ts \<Rightarrow>
                        Inr \<lparr>result_value = final_value,
                             result_timestamp = ts,
                             confidence = calculate_confidence filtered_values,
                             nodes_participated = length validated_readings,
                             outliers_removed = int (length vals) - int (length filtered_values)\<rparr>))"

section \<open>src/core/node.py\<close>

text \<open>
  \<open>RodioNode.process_consensus\<close>, the caller that submits an aggregated value to the
  ledger. \<open>ledger_calls\<close> logs the calls of \<open>contract_handler.submit_data_async\<close>
  (sensor, value, timestamp); the two counters are the entries of \<open>self.metrics\<close>.
  The ledger's answer is the input \<open>submit_data_async\<close>: \<open>None\<close> when the call raises.
\<close>

record RodioNode =
  ledger_calls :: "(string \<times> real \<times> int) list"
  successful_submissions :: nat
  consensus_failures :: nat

definition process_consensus ::
  "DataAggregator \<Rightarrow> (string \<times> real \<times> int \<Rightarrow> string option) \<Rightarrow>
   RodioNode \<Rightarrow> string \<Rightarrow> SensorReading list \<Rightarrow> RodioNode" where
  "process_consensus aggregator submit_data_async self sensor_name readings =
     (case aggregate_readings aggregator readings of
        Inl e \<Rightarrow> self\<lparr>consensus_failures := consensus_failures self + 1\<rparr>
      | Inr aggregated_data \<Rightarrow>
          let call = (sensor_name, result_value aggregated_data, result_timestamp aggregated_data);
              self1 = self\<lparr>ledger_calls := ledger_calls self @ [call]\<rparr>
          in case submit_data_async call of
               None \<Rightarrow> self1\<lparr>consensus_failures := consensus_failures self1 + 1\<rparr>
             | Some tx_hash \<Rightarrow>
                 self1\<lparr>successful_submissions := successful_submissions self1 + 1\<rparr>)"

section \<open>src/security/reputation.py\<close>

record ReputationEvent =
  event_node_id :: string
  event_type :: string
  impact :: real
  event_timestamp :: int
  details :: "(string \<times> string) list"

text \<open>
  The mutable state of \<open>ReputationSystem\<close>: the dictionary of scores and the event log.
  The other attributes are set once by \<open>__init__\<close> and are constants here.
\<close>

record ReputationSystem =
  node_reputations :: "string \<rightharpoonup> real"
  reputation_events :: "ReputationEvent list"

definition reputation_weights :: "string \<rightharpoonup> real" where
  "reputation_weights = map_of
     [(''consensus_success'', 0.05),
      (''consensus_failure'', - 0.1),
      (''data_quality_high'', 0.03),
      (''data_quality_low'', - 0.05),
      (''uptime_good'', 0.02),
      (''uptime_poor'', - 0.08),
      (''malicious_behavior'', - 0.5),
      (''stake_increase'', 0.1),
      (''stake_slash'', - 0.3)]"

definition min_reputation :: real where "min_reputation = 0.0"

definition max_reputation :: real where "max_reputation = 1.0"

definition default_reputation :: real where "default_reputation = 0.8"

definition decay_rate :: real where "decay_rate = 0.001"

text \<open>The state after \<open>__init__\<close>.\<close>

definition new_ReputationSystem :: ReputationSystem where
  "new_ReputationSystem = \<lparr>node_reputations = Map.empty, reputation_events = []\<rparr>"

text \<open>\<open>get_reputation\<close> stores the default score of a node it has not seen.\<close>

definition get_reputation :: "ReputationSystem \<Rightarrow> string \<Rightarrow> real \<times> ReputationSystem" where
  "get_reputation self nid =
     (case node_reputations self nid of
        None \<Rightarrow>
          (default_reputation,
           self\<lparr>node_reputations := (node_reputations self)(nid \<mapsto> default_reputation)\<rparr>)
      | Some r \<Rightarrow> (r, self))"

text \<open>\<open>update_reputation\<close>; \<open>now\<close> is \<open>int(time.time())\<close>.\<close>

definition update_reputation ::
  "ReputationSystem \<Rightarrow> string \<Rightarrow> string \<Rightarrow> (string \<times> string) list \<Rightarrow> int \<Rightarrow> ReputationSystem" where
  "update_reputation self nid etype dets now =
     (case reputation_weights etype of
        None \<Rightarrow> self
      | Some imp \<Rightarrow>
          let (current_reputation, self1) = get_reputation self nid;
              new_reputation = max min_reputation (min max_reputation (current_reputation + imp));
              event = \<lparr>event_node_id = nid, event_type = etype, impact = imp,
                       event_timestamp = now, details = dets\<rparr>;
              self2 = self1\<lparr>reputation_events := reputation_events self1 @ [event]\<rparr>
          in self2\<lparr>node_reputations := (node_reputations self2)(nid \<mapsto> new_reputation)\<rparr>)"

text \<open>One iteration of the loop of \<open>apply_time_decay\<close>, on the score of one node.\<close>

definition decay_step :: "real \<Rightarrow> real" where
  "decay_step current_rep =
     (let target = 0.5;
          decay_amount = decay_rate * (current_rep - target);
          new_reputation = current_rep - decay_amount
      in max min_reputation (min max_reputation new_reputation))"

text \<open>\<open>apply_time_decay\<close>: the loop assigns every key of the dictionary once.\<close>

definition apply_time_decay :: "ReputationSystem \<Rightarrow> ReputationSystem" where
  "apply_time_decay self =
     self\<lparr>node_reputations := (\<lambda>nid. map_option decay_step (node_reputations self nid))\<rparr>"

text \<open>The calls that change a \<open>ReputationSystem\<close>, and a run of them in order.\<close>

datatype reputation_call =
    Get_reputation string
  | Update_reputation string string "(string \<times> string) list" int
  | Apply_time_decay

fun reputation_step :: "ReputationSystem \<Rightarrow> reputation_call \<Rightarrow> ReputationSystem" where
  "reputation_step self (Get_reputation nid) = snd (get_reputation self nid)"
| "reputation_step self (Update_reputation nid etype dets now) =
     update_reputation self nid etype dets now"
| "reputation_step self Apply_time_decay = apply_time_decay self"

definition reputation_run :: "reputation_call list \<Rightarrow> ReputationSystem" where
  "reputation_run calls = foldl reputation_step new_ReputationSystem calls"

section \<open>src/security/staking.py\<close>

text \<open>An entry of \<open>slash_events\<close>.\<close>

record SlashRecord =
  node_address :: string
  amount :: int
  reason :: string
  slash_timestamp :: int
  tx_hash :: string

text \<open>The state of \<open>StakingManager\<close> that \<open>slash_node\<close> reads and writes.\<close>

record StakingManager =
  slash_events :: "SlashRecord list"
  reputation_scores :: "string \<rightharpoonup> real"

text \<open>
  What \<open>slash_node\<close> takes from outside the program:
  \<^item> \<open>address_hash\<close>: \<open>int(hashlib.sha256(a.encode()).hexdigest()[:8], 16)\<close> of an address;
  \<^item> \<open>votes_for\<close>, \<open>votes_against\<close>: the draws \<open>random.randint(3, 7)\<close> and
    \<open>random.randint(0, 2)\<close>;
  \<^item> \<open>send_transaction\<close>: the hash that \<open>web3.send_transaction\<close> returns, \<open>None\<close> when it
    raises;
  \<^item> \<open>clock\<close>: \<open>int(time.time())\<close>.
\<close>

record world =
  address_hash :: "string \<Rightarrow> nat"
  votes_for :: int
  votes_against :: int
  send_transaction :: "string option"
  clock :: int

definition get_node_stake :: "world \<Rightarrow> string \<Rightarrow> int" where
  "get_node_stake w a = (int (address_hash w a) mod 5000 + 1000) * 10 ^ 18"

definition auto_slash_reasons :: "string list" where
  "auto_slash_reasons =
     [''data_manipulation'', ''double_spending'', ''malicious_consensus'', ''stake_below_minimum'']"

text \<open>
  \<open>is_consensus_slashing\<close>: the division raises ZeroDivisionError when no vote is cast,
  and \<open>except Exception\<close> returns False.
\<close>

definition is_consensus_slashing :: "world \<Rightarrow> string \<Rightarrow> string \<Rightarrow> bool" where
  "is_consensus_slashing w target_node rsn =
     (if rsn \<in> set auto_slash_reasons then True
      else if votes_for w + votes_against w = 0 then False
      else
        let consensus_ratio = real_of_int (votes_for w) / real_of_int (votes_for w + votes_against w)
        in 0.75 \<le> consensus_ratio)"

definition get_reputation_score :: "StakingManager \<Rightarrow> string \<Rightarrow> real" where
  "get_reputation_score self a = (case reputation_scores self a of None \<Rightarrow> 1.0 | Some s \<Rightarrow> s)"

definition update_reputation_score :: "StakingManager \<Rightarrow> string \<Rightarrow> real \<Rightarrow> StakingManager" where
  "update_reputation_score self a delta =
     (let current_score = get_reputation_score self a;
          new_score = max 0.0 (min 1.0 (current_score + delta))
      in self\<lparr>reputation_scores := (reputation_scores self)(a \<mapsto> new_score)\<rparr>)"

text \<open>\<open>slash_node\<close> returns its boolean and the new state.\<close>

definition slash_node ::
  "world \<Rightarrow> StakingManager \<Rightarrow> string \<Rightarrow> int \<Rightarrow> string \<Rightarrow> bool \<times> StakingManager" where
  "slash_node w self malicious_node amt rsn =
     (if \<not> is_consensus_slashing w malicious_node rsn then (False, self)
      else
        let current_stake = get_node_stake w malicious_node;
            amt1 = (if current_stake < amt then current_stake else amt)
        in case send_transaction w of
             None \<Rightarrow> (False, self)
           | Some h \<Rightarrow>
               let slash_event = \<lparr>node_address = malicious_node, amount = amt1, reason = rsn,
                                  slash_timestamp = clock w, tx_hash = h\<rparr>;
                   self1 = self\<lparr>slash_events := slash_events self @ [slash_event]\<rparr>
               in (True, update_reputation_score self1 malicious_node (- 0.2)))"

section \<open>src/monitoring/metrics.py\<close>



text \<open>\<open>sep.join(xs)\<close>.\<close>

fun join :: "string \<Rightarrow> string list \<Rightarrow> string" where
  "join sep [] = []"
| "join sep [x] = x"
| "join sep (x # y # ys) = x @ sep @ join sep (y # ys)"

text \<open>
  \<open>_labels_to_string\<close>; the labels are the items of the dictionary, and the empty list
  stands for both \<open>None\<close> and \<open>{}\<close>.
\<close>

definition labels_to_string :: "(string \<times> string) list \<Rightarrow> string" where
  "labels_to_string labels =
     (if labels = [] then []
      else join ''_'' (map (\<lambda>(k, v). k @ ''='' @ v) (sort labels)))"

text \<open>The local \<open>key\<close> of \<open>record_histogram\<close>.\<close>

definition histogram_key :: "string \<Rightarrow> (string \<times> string) list \<Rightarrow> string" where
  "histogram_key name labels =
     (if labels \<noteq> [] then name @ ''_'' @ labels_to_string labels else name)"







section \<open>Definitions that follow the specification\<close>


text \<open>
  The consensus check in the words of the specification: with \<open>m\<close> the median,
  \<open>\<tau> = max(|m| * outlier_tolerance, absolute_floor)\<close>, the values within \<open>\<tau>\<close> of \<open>m\<close>
  agree, and the check succeeds when their fraction reaches the threshold.
\<close>

definition consensus_check_spec :: "real \<Rightarrow> real \<Rightarrow> real \<Rightarrow> real list \<Rightarrow> bool" where
  "consensus_check_spec threshold tol absolute_floor filtered =
     (case median filtered of
        None \<Rightarrow> False
      | Some m \<Rightarrow>
          let \<tau> = max (\<bar>m\<bar> * tol) absolute_floor;
              agree = filter (\<lambda>v. \<bar>v - m\<bar> \<le> \<tau>) filtered;
              ratio = real (length agree) / real (length filtered)
          in threshold \<le> ratio)"

text \<open>
  Linear decay toward a target in the words of the specification: one step moves the
  score toward the target by the rate itself, and not past the target.
\<close>

definition linear_decay_spec :: "real \<Rightarrow> real \<Rightarrow> real \<Rightarrow> real" where
  "linear_decay_spec target rate r =
     (if target < r then max target (r - rate) else min target (r + rate))"


section \<open>Auxiliary definitions\<close>

text \<open>The test of the filter of \<open>remove_outliers\<close>, for a list of at least four values.\<close>

definition iqr_keep :: "real list \<Rightarrow> real \<Rightarrow> bool" where
  "iqr_keep v =
     (let s = sort v; n = length v; Q1 = s ! (n div 4); Q3 = s ! (3 * n div 4); IQR = Q3 - Q1
      in (\<lambda>x. Q1 - 1.5 * IQR \<le> x \<and> x \<le> Q3 + 1.5 * IQR))"

text \<open>Every stored reputation lies in the unit interval.\<close>

definition scores_in_range :: "ReputationSystem \<Rightarrow> bool" where
  "scores_in_range self = (\<forall>nid r. node_reputations self nid = Some r \<longrightarrow> 0 \<le> r \<and> r \<le> 1)"


text \<open>
  Concrete inputs: a reading whose signature has the 64 characters that
  \<open>validate_signatures\<close> asks for, one whose signature has not, a new staking manager, and
  a world in which every address hashes to 0 (a stake of 1000 tokens), three votes are
  for and one against, and the transaction is sent.
\<close>

definition signed_reading :: "real \<Rightarrow> SensorReading" where
  "signed_reading v =
     \<lparr>reading_value = v, timestamp = 1700000000, node_id = ''node'',
      signature = replicate 64 (CHR ''a'')\<rparr>"

definition unsigned_reading :: "real \<Rightarrow> SensorReading" where
  "unsigned_reading v =
     \<lparr>reading_value = v, timestamp = 1700000000, node_id = ''node'', signature = ''sig''\<rparr>"



section \<open>The aggregator: outlier filter\<close>

text \<open>
  In a sorted list, the entries between two positions satisfy every test that holds
  between the two entries, so at least that many entries pass the test.
\<close>

lemma sorted_middle_kept:
  fixes s :: "real list"
  assumes "sorted s" and "a \<le> b" and "b < length s"
    and "\<And>x. s ! a \<le> x \<Longrightarrow> x \<le> s ! b \<Longrightarrow> P x"
  shows "b - a + 1 \<le> length (filter P s)"
proof -
  have "{a..b} \<subseteq> {i. i < length s \<and> P (s ! i)}"
  proof
    fix i assume "i \<in> {a..b}"
    then have i: "a \<le> i" "i \<le> b" by auto
    with assms(3) have "i < length s" by simp
    moreover have "s ! a \<le> s ! i" using assms(1) i \<open>i < length s\<close> by (simp add: sorted_nth_mono)
    moreover have "s ! i \<le> s ! b" using assms(1,3) i by (simp add: sorted_nth_mono)
    ultimately show "i \<in> {i. i < length s \<and> P (s ! i)}" using assms(4) by simp
  qed
  then have "card {a..b} \<le> card {i. i < length s \<and> P (s ! i)}"
    by (intro card_mono) auto
  then show ?thesis using assms(2) by (simp add: length_filter_conv_card Suc_diff_le)
qed

lemma remove_outliers_short: "length v < 4 \<Longrightarrow> remove_outliers v = v"
  by (simp add: remove_outliers_def)

text \<open>With four values or more both quartile reads are in range: no IndexError.\<close>

lemma remove_outliers_long:
  assumes "4 \<le> length v"
  shows "remove_outliers v = (if filter (iqr_keep v) v = [] then v else filter (iqr_keep v) v)"
  using assms by (simp add: remove_outliers_def py_index_def iqr_keep_def Let_def)

text \<open>The sorted values from position \<open>n div 4\<close> to \<open>3 * n div 4\<close> are always kept.\<close>

lemma iqr_keep_count:
  assumes n: "4 \<le> length v"
  shows "3 \<le> length (filter (iqr_keep v) v)"
proof -
  let ?s = "sort v" and ?a = "length v div 4" and ?b = "3 * length v div 4"
  have ab: "?a \<le> ?b" "?b < length ?s" "2 \<le> ?b - ?a" using n by auto
  have "?b - ?a + 1 \<le> length (filter (iqr_keep v) ?s)"
  proof (rule sorted_middle_kept)
    fix x assume x: "?s ! ?a \<le> x" "x \<le> ?s ! ?b"
    define q1 where "q1 = ?s ! ?a"
    define q3 where "q3 = ?s ! ?b"
    from x have "q1 \<le> x" "x \<le> q3" by (simp_all add: q1_def q3_def)
    then have "q1 - 1.5 * (q3 - q1) \<le> x \<and> x \<le> q3 + 1.5 * (q3 - q1)" by argo
    then show "iqr_keep v x" by (simp only: iqr_keep_def Let_def q1_def q3_def)
  qed (use ab in simp_all)
  moreover have "length (filter (iqr_keep v) ?s) = length (filter (iqr_keep v) v)"
    by (simp add: filter_sort)
  ultimately show ?thesis using ab(3) by linarith
qed

text \<open>Hence the fallback for an empty filtered list is never taken.\<close>

lemma remove_outliers_eq_filter:
  assumes "4 \<le> length v"
  shows "remove_outliers v = filter (iqr_keep v) v"
  using iqr_keep_count[OF assms] remove_outliers_long[OF assms] by auto

lemma remove_outliers_length_le: "length (remove_outliers v) \<le> length v"
proof (cases "length v < 4")
  case True
  then show ?thesis by (simp add: remove_outliers_short)
next
  case False
  then show ?thesis by (simp add: remove_outliers_eq_filter)
qed




text \<open>
  \<^bold>\<open>C5\<close>, as stated, fails: on \<open>[1, 5, 5, 5, 5, 6, 100]\<close> the first pass keeps
  \<open>[5, 5, 5, 5, 6]\<close> (bounds 3.5 and 7.5), and a second pass on that list has \<open>Q1 = Q3 = 5\<close>
  and removes the 6.
\<close>

theorem remove_outliers_not_idempotent:
  "remove_outliers [1, 5, 5, 5, 5, 6, 100] = [5, 5, 5, 5, 6] \<and>
   remove_outliers (remove_outliers [1, 5, 5, 5, 5, 6, 100]) = [5, 5, 5, 5] \<and>
   remove_outliers (remove_outliers [1, 5, 5, 5, 5, 6, 100]) \<noteq> remove_outliers [1, 5, 5, 5, 5, 6, 100]"
  by (simp add: remove_outliers_def py_index_def)

text \<open>
  \<^bold>\<open>C5\<close>, amended. A second pass of \<open>remove_outliers\<close> changes nothing when the input has
  at most four values or the first pass leaves fewer than four; in every case the second
  pass only removes values from the result of the first.
\<close>

theorem remove_outliers_second_pass:
  "(length v \<le> 4 \<or> length (remove_outliers v) < 4 \<longrightarrow>
      remove_outliers (remove_outliers v) = remove_outliers v) \<and>
   (\<exists>P. remove_outliers (remove_outliers v) = filter P (remove_outliers v))"
proof
  show "length v \<le> 4 \<or> length (remove_outliers v) < 4 \<longrightarrow>
      remove_outliers (remove_outliers v) = remove_outliers v"
  proof
    assume h: "length v \<le> 4 \<or> length (remove_outliers v) < 4"
    show "remove_outliers (remove_outliers v) = remove_outliers v"
    proof (cases "length (remove_outliers v) < 4")
      case True
      then show ?thesis by (rule remove_outliers_short)
    next
      case False
      with h remove_outliers_length_le[of v]
      have n: "length v = 4" "length (remove_outliers v) = length v"
        by auto
      then have "remove_outliers v = filter (iqr_keep v) v"
        by (simp add: remove_outliers_eq_filter)
      with n(2) have "remove_outliers v = v"
        by (metis length_filter_less less_irrefl filter_True)
      then show ?thesis by simp
    qed
  qed
next
  show "\<exists>P. remove_outliers (remove_outliers v) = filter P (remove_outliers v)"
  proof (cases "length (remove_outliers v) < 4")
    case True
    then have "remove_outliers (remove_outliers v) = filter (\<lambda>_. True) (remove_outliers v)"
      by (simp add: remove_outliers_short)
    then show ?thesis by (rule exI[where x = "\<lambda>_. True"])
  next
    case False
    then have "remove_outliers (remove_outliers v) =
        filter (iqr_keep (remove_outliers v)) (remove_outliers v)"
      by (simp add: remove_outliers_eq_filter)
    then show ?thesis by (rule exI[where x = "iqr_keep (remove_outliers v)"])
  qed
qed

theorem remove_outliers_second_pass_witness:
  "length [0, 10, 10, 10 :: real] \<le> 4 \<and>
   remove_outliers [0, 10, 10, 10] = [10, 10, 10] \<and>
   remove_outliers (remove_outliers [0, 10, 10, 10]) = remove_outliers [0, 10, 10, 10]"
proof -
  have h: "length [0, 10, 10, 10 :: real] \<le> 4" by simp
  have e: "remove_outliers [0, 10, 10, 10] = [10, 10, 10]"
    by (simp add: remove_outliers_def py_index_def)
  from remove_outliers_second_pass[of "[0, 10, 10, 10]"] h e show ?thesis by blast
qed

section \<open>The aggregator: consensus check\<close>





text \<open>
  Where the median is 0, or far enough from 0 for the relative tolerance to reach the
  floor of 0.1, the tolerance of the code is the tolerance of the specification.
\<close>

lemma tolerance_eq_spec:
  assumes "0 \<le> outlier_tolerance self"
    and "m = 0 \<or> 0.1 \<le> \<bar>m\<bar> * outlier_tolerance self"
  shows "tolerance self m = max (\<bar>m\<bar> * outlier_tolerance self) 0.1"
proof (cases "m = 0")
  case True
  then show ?thesis by (simp add: tolerance_def)
next
  case False
  with assms(2) have "0.1 \<le> \<bar>m\<bar> * outlier_tolerance self" by simp
  moreover have "\<bar>m * outlier_tolerance self\<bar> = \<bar>m\<bar> * outlier_tolerance self"
    using assms(1) by (simp add: abs_mult)
  ultimately show ?thesis using False by (simp add: tolerance_def)
qed

lemma check_consensus_eq_spec:
  assumes "2 \<le> length v" and "median v = Some m" and "0 \<le> outlier_tolerance self"
    and "m = 0 \<or> 0.1 \<le> \<bar>m\<bar> * outlier_tolerance self"
  shows "check_consensus self v =
           consensus_check_spec (consensus_threshold self) (outlier_tolerance self) 0.1 v"
proof -
  from assms(1) have "v \<noteq> []" "length v \<noteq> 1" by auto
  then show ?thesis
    using assms(2) tolerance_eq_spec[OF assms(3,4)]
    by (simp add: check_consensus_def consensus_check_spec_def consensus_ratio_def
        within_threshold_def Let_def)
qed

text \<open>
  The cases of \<open>tests/test_consensus.py\<close> for the two functions: the outlier 100 is
  removed, dispersed values fail the check, and values around a median of exactly 0 pass.
\<close>

lemma test_remove_outliers_iqr:
  "remove_outliers [20, 21, 22, 23, 24, 25, 100] = [20, 21, 22, 23, 24, 25]"
  by (simp add: remove_outliers_def py_index_def)

lemma test_check_consensus_failure: "\<not> check_consensus default_aggregator [10, 20, 30, 40]"
  by (simp add: check_consensus_def consensus_ratio_def median_def within_threshold_def
      tolerance_def default_aggregator_def Let_def)

lemma test_check_consensus_around_zero: "check_consensus default_aggregator [0, 0.1, - 0.1]"
  by (simp add: check_consensus_def consensus_ratio_def median_def within_threshold_def
      tolerance_def default_aggregator_def Let_def)

text \<open>
  \<^bold>\<open>C3.\<close> The code departs from the claim where the median is near zero and not zero.
  On \<open>[-1/16, 1/64, 1/16]\<close> the median is \<open>1/64\<close>; \<open>check_consensus\<close> takes the relative
  tolerance \<open>1/64 * 0.05\<close>, finds one value of three within it and fails, while the
  tolerance \<open>max(|m| * 0.05, 0.1) = 0.1\<close> of the claim accepts all three values.
\<close>

theorem check_consensus_near_zero_divergence:
  "\<not> check_consensus default_aggregator [- 1 / 16, 1 / 64, 1 / 16] \<and>
   consensus_check_spec 0.8 0.05 0.1 [- 1 / 16, 1 / 64, 1 / 16]"
  by (simp add: check_consensus_def consensus_ratio_def median_def within_threshold_def
      tolerance_def default_aggregator_def consensus_check_spec_def Let_def)

section \<open>The aggregator: \<open>aggregate_readings\<close>\<close>






text \<open>
  \<^bold>\<open>C2\<close>, as stated, fails: of three readings, one with an invalid signature, two are
  valid, fewer than \<open>min_nodes = 3\<close>; the first size gate counts all three and passes, and
  the call fails at the second gate with a ConsensusError, not with the ValueError of
  too few nodes.
\<close>

theorem size_gate_kind_counterexample:
  "int (length (validate_signatures
      [signed_reading 23, signed_reading 23.125, unsigned_reading 22.875]))
     < min_nodes default_aggregator \<and>
   aggregate_readings default_aggregator
      [signed_reading 23, signed_reading 23.125, unsigned_reading 22.875]
     = Inl ConsensusError_outliers \<and>
   class_of ConsensusError_outliers \<noteq> ValueError"
  by (simp add: aggregate_readings_def validate_signatures_def remove_outliers_def py_index_def
      check_consensus_def consensus_ratio_def median_def within_threshold_def tolerance_def
      signed_reading_def default_aggregator_def Let_def unsigned_reading_def)

text \<open>
  \<^bold>\<open>C2\<close>, amended. When fewer than \<open>min_nodes\<close> readings are given, \<open>aggregate_readings\<close>
  fails with the ValueError of too few nodes; this is the case of two readings under
  \<open>min_nodes = 3\<close>. When the readings with a valid signature number fewer than
  \<open>min_nodes\<close>, the call fails, and \<open>process_consensus\<close> submits nothing to the ledger.
\<close>

theorem size_gate_failure:
  "(int (length readings) < min_nodes self \<longrightarrow>
      aggregate_readings self readings = Inl (ValueError_min_nodes (min_nodes self)) \<and>
      class_of (ValueError_min_nodes (min_nodes self)) = ValueError) \<and>
   (int (length (validate_signatures readings)) < min_nodes self \<longrightarrow>
      (\<exists>e. aggregate_readings self readings = Inl e) \<and>
      ledger_calls (process_consensus self submit node sensor readings) = ledger_calls node)"
proof (intro conjI impI)
  assume "int (length readings) < min_nodes self"
  then show "aggregate_readings self readings = Inl (ValueError_min_nodes (min_nodes self))"
    by (simp add: aggregate_readings_def)
next
  show "class_of (ValueError_min_nodes (min_nodes self)) = ValueError" by simp
next
  assume v: "int (length (validate_signatures readings)) < min_nodes self"
  have "length (remove_outliers (map reading_value (validate_signatures readings)))
          \<le> length (validate_signatures readings)"
    using remove_outliers_length_le[of "map reading_value (validate_signatures readings)"] by simp
  with v have "int (length (remove_outliers (map reading_value (validate_signatures readings))))
          < min_nodes self" by linarith
  then show e: "\<exists>e. aggregate_readings self readings = Inl e"
    by (simp add: aggregate_readings_def Let_def)
  then show "ledger_calls (process_consensus self submit node sensor readings) = ledger_calls node"
    by (auto simp: process_consensus_def)
qed

theorem size_gate_failure_witness:
  "int (length [signed_reading 23, signed_reading 23.125]) < min_nodes default_aggregator \<and>
   int (length (validate_signatures [signed_reading 23, signed_reading 23.125]))
     < min_nodes default_aggregator \<and>
   aggregate_readings default_aggregator [signed_reading 23, signed_reading 23.125]
     = Inl (ValueError_min_nodes 3) \<and>
   ledger_calls (process_consensus default_aggregator (\<lambda>c. Some ''0xtx'')
       \<lparr>ledger_calls = [], successful_submissions = 0, consensus_failures = 0\<rparr> ''temp''
       [signed_reading 23, signed_reading 23.125]) = []"
proof -
  let ?rs = "[signed_reading 23, signed_reading 23.125]"
  have a: "int (length ?rs) < min_nodes default_aggregator"
    by (simp add: default_aggregator_def)
  have b: "int (length (validate_signatures ?rs)) < min_nodes default_aggregator"
    by (simp add: aggregate_readings_def validate_signatures_def remove_outliers_def py_index_def
      check_consensus_def consensus_ratio_def median_def within_threshold_def tolerance_def
      signed_reading_def default_aggregator_def Let_def)
  have m: "min_nodes default_aggregator = 3" by (simp add: default_aggregator_def)
  from size_gate_failure[of ?rs default_aggregator "\<lambda>c. Some ''0xtx''"
      "\<lparr>ledger_calls = [], successful_submissions = 0, consensus_failures = 0\<rparr>" "''temp''"] a b m
  show ?thesis by simp
qed

section \<open>The reputation system\<close>

lemma decay_step_range: "0 \<le> decay_step r \<and> decay_step r \<le> 1"
  by (simp add: decay_step_def min_reputation_def max_reputation_def Let_def)

text \<open>On a score of the unit interval the clamp of the decay step changes nothing.\<close>

lemma decay_step_in_range:
  assumes "0 \<le> r" and "r \<le> 1"
  shows "decay_step r = r - decay_rate * (r - 0.5)"
proof -
  define d where "d = r - decay_rate * (r - 0.5)"
  have "0 \<le> d \<and> d \<le> 1"
    using assms unfolding d_def decay_rate_def by (auto simp: field_simps)
  then show ?thesis
    by (simp add: decay_step_def min_reputation_def max_reputation_def Let_def d_def)
qed

lemma scores_in_range_new: "scores_in_range new_ReputationSystem"
  by (simp add: scores_in_range_def new_ReputationSystem_def)

lemma scores_in_range_get:
  "scores_in_range self \<Longrightarrow> scores_in_range (snd (get_reputation self nid))"
  by (auto simp: scores_in_range_def get_reputation_def default_reputation_def split: option.splits)

lemma update_reputation_stored:
  assumes "reputation_weights etype = Some w"
  shows "\<exists>r. node_reputations (update_reputation self nid etype dets now) nid = Some r
           \<and> 0 \<le> r \<and> r \<le> 1"
  using assms
  by (simp add: update_reputation_def get_reputation_def min_reputation_def max_reputation_def
      Let_def split: option.splits prod.splits)

lemma update_reputation_other:
  assumes "other \<noteq> nid"
  shows "node_reputations (update_reputation self nid etype dets now) other
           = node_reputations self other"
  using assms
  by (auto simp: update_reputation_def get_reputation_def Let_def split: option.splits prod.splits)

lemma scores_in_range_update:
  assumes "scores_in_range self"
  shows "scores_in_range (update_reputation self nid etype dets now)"
proof (cases "reputation_weights etype")
  case None
  with assms show ?thesis by (simp add: update_reputation_def)
next
  case (Some w)
  show ?thesis
    unfolding scores_in_range_def
  proof (intro allI impI)
    fix other r
    assume s: "node_reputations (update_reputation self nid etype dets now) other = Some r"
    show "0 \<le> r \<and> r \<le> 1"
    proof (cases "other = nid")
      case True
      with s update_reputation_stored[OF Some, of self nid dets now] show ?thesis by auto
    next
      case False
      with s assms show ?thesis by (simp add: update_reputation_other scores_in_range_def)
    qed
  qed
qed

lemma apply_time_decay_stored:
  "node_reputations (apply_time_decay self) nid = map_option decay_step (node_reputations self nid)"
  by (simp add: apply_time_decay_def)

lemma scores_in_range_decay: "scores_in_range (apply_time_decay self)"
  using decay_step_range by (auto simp: scores_in_range_def apply_time_decay_stored)

lemma scores_in_range_step:
  "scores_in_range self \<Longrightarrow> scores_in_range (reputation_step self c)"
  by (cases c) (simp_all add: scores_in_range_get scores_in_range_update scores_in_range_decay)

lemma scores_in_range_foldl:
  "scores_in_range self \<Longrightarrow> scores_in_range (foldl reputation_step self calls)"
  by (induction calls arbitrary: self) (simp_all add: scores_in_range_step)

text \<open>
  \<^bold>\<open>C6.\<close> After every sequence of \<open>get_reputation\<close>, \<open>update_reputation\<close> and
  \<open>apply_time_decay\<close> calls on a new reputation system, every stored reputation lies in
  \<open>[0, 1]\<close>. Moreover, from any state whatever, the score that \<open>update_reputation\<close> stores
  for a recognized event lies in \<open>[0, 1]\<close>, and so does every score after
  \<open>apply_time_decay\<close>.
\<close>

theorem reputation_stays_in_unit_interval:
  "(node_reputations (reputation_run calls) nid = Some r \<longrightarrow> 0 \<le> r \<and> r \<le> 1) \<and>
   (etype \<in> dom reputation_weights \<and>
    node_reputations (update_reputation self nid etype dets now) nid = Some r
      \<longrightarrow> 0 \<le> r \<and> r \<le> 1) \<and>
   (node_reputations (apply_time_decay self) nid = Some r \<longrightarrow> 0 \<le> r \<and> r \<le> 1)"
proof -
  have "scores_in_range (reputation_run calls)"
    unfolding reputation_run_def by (rule scores_in_range_foldl[OF scores_in_range_new])
  then have run: "0 \<le> r \<and> r \<le> 1" if "node_reputations (reputation_run calls) nid = Some r"
    using that by (simp add: scores_in_range_def)
  have upd: "0 \<le> r \<and> r \<le> 1"
    if "etype \<in> dom reputation_weights \<and>
        node_reputations (update_reputation self nid etype dets now) nid = Some r"
  proof -
    from that obtain w where w: "reputation_weights etype = Some w"
      and s: "node_reputations (update_reputation self nid etype dets now) nid = Some r" by auto
    from update_reputation_stored[OF w, of self nid dets now] s show ?thesis by auto
  qed
  have dec: "0 \<le> r \<and> r \<le> 1" if "node_reputations (apply_time_decay self) nid = Some r"
    using that scores_in_range_decay[of self] by (simp add: scores_in_range_def)
  from run upd dec show ?thesis by blast
qed

text \<open>
  A run that clamps at both ends: three \<open>stake_increase\<close> events take \<open>n1\<close> from 0.8 to 1,
  two \<open>malicious_behavior\<close> events take \<open>n2\<close> from 0.8 to 0, and the decay pass moves \<open>n2\<close>
  to \<open>1/2000\<close>.
\<close>

theorem reputation_stays_in_unit_interval_witness:
  "node_reputations (reputation_run
      [Update_reputation ''n1'' ''stake_increase'' [] 10,
       Update_reputation ''n1'' ''stake_increase'' [] 20,
       Update_reputation ''n1'' ''stake_increase'' [] 30,
       Update_reputation ''n2'' ''malicious_behavior'' [] 40,
       Update_reputation ''n2'' ''malicious_behavior'' [] 50,
       Apply_time_decay]) ''n2'' = Some (1 / 2000) \<and>
   (0::real) \<le> 1 / 2000 \<and> (1::real) / 2000 \<le> 1"
proof -
  let ?calls = "[Update_reputation ''n1'' ''stake_increase'' [] 10,
       Update_reputation ''n1'' ''stake_increase'' [] 20,
       Update_reputation ''n1'' ''stake_increase'' [] 30,
       Update_reputation ''n2'' ''malicious_behavior'' [] 40,
       Update_reputation ''n2'' ''malicious_behavior'' [] 50,
       Apply_time_decay]"
  have e: "node_reputations (reputation_run ?calls) ''n2'' = Some (1 / 2000)"
    by (simp add: reputation_run_def update_reputation_def get_reputation_def reputation_weights_def
      apply_time_decay_def decay_step_def decay_rate_def min_reputation_def max_reputation_def
      default_reputation_def new_ReputationSystem_def Let_def)
  from reputation_stays_in_unit_interval[of ?calls "''n2''" "1 / 2000"] e show ?thesis by blast
qed

text \<open>
  \<^bold>\<open>C7\<close>, as stated, fails: a node at the default reputation 0.8 moves to 0.7997 in one
  decay pass, a step of 0.0003, where linear decay at the rate 0.001 moves it to 0.799.
\<close>

theorem apply_time_decay_not_linear:
  "node_reputations (apply_time_decay (snd (get_reputation new_ReputationSystem ''n1''))) ''n1''
     = Some 0.7997 \<and>
   linear_decay_spec 0.5 decay_rate 0.8 = 0.799 \<and>
   node_reputations (apply_time_decay (snd (get_reputation new_ReputationSystem ''n1''))) ''n1''
     \<noteq> Some (linear_decay_spec 0.5 decay_rate 0.8)"
  by (simp add: get_reputation_def apply_time_decay_def decay_step_def decay_rate_def
      min_reputation_def max_reputation_def default_reputation_def new_ReputationSystem_def
      linear_decay_spec_def Let_def)

text \<open>
  \<^bold>\<open>C7\<close>, amended. One pass of \<open>apply_time_decay\<close> moves every stored reputation \<open>r\<close> of
  \<open>[0, 1]\<close> to \<open>r - decay_rate * (r - 0.5)\<close>: toward 0.5 by the fraction \<open>decay_rate\<close> of its
  distance from 0.5, so that the distance is multiplied by \<open>1 - decay_rate\<close>. A reputation
  of 0.5 is left unchanged, and the event log is not touched.
\<close>

theorem apply_time_decay_proportional:
  assumes "node_reputations self nid = Some r" and "0 \<le> r" and "r \<le> 1"
  shows "node_reputations (apply_time_decay self) nid = Some (r - decay_rate * (r - 0.5)) \<and>
         \<bar>(r - decay_rate * (r - 0.5)) - 0.5\<bar> = (1 - decay_rate) * \<bar>r - 0.5\<bar> \<and>
         (r = 0.5 \<longrightarrow> node_reputations (apply_time_decay self) nid = Some 0.5) \<and>
         reputation_events (apply_time_decay self) = reputation_events self"
proof -
  have a: "node_reputations (apply_time_decay self) nid = Some (r - decay_rate * (r - 0.5))"
    using assms by (simp add: apply_time_decay_stored decay_step_in_range)
  have "(r - decay_rate * (r - 0.5)) - 0.5 = (1 - decay_rate) * (r - 0.5)"
    by (simp add: field_simps)
  then have "\<bar>(r - decay_rate * (r - 0.5)) - 0.5\<bar> = \<bar>1 - decay_rate\<bar> * \<bar>r - 0.5\<bar>"
    by (simp only: abs_mult)
  moreover have "\<bar>1 - decay_rate\<bar> = 1 - decay_rate"
    by (simp add: decay_rate_def)
  ultimately have b: "\<bar>(r - decay_rate * (r - 0.5)) - 0.5\<bar> = (1 - decay_rate) * \<bar>r - 0.5\<bar>"
    by (simp only:)
  have c: "reputation_events (apply_time_decay self) = reputation_events self"
    by (simp add: apply_time_decay_def)
  from a b c show ?thesis by auto
qed

theorem apply_time_decay_proportional_witness:
  "node_reputations (snd (get_reputation new_ReputationSystem ''n1'')) ''n1'' = Some 0.8 \<and>
   (0::real) \<le> 0.8 \<and> (0.8::real) \<le> 1 \<and>
   node_reputations (apply_time_decay (snd (get_reputation new_ReputationSystem ''n1''))) ''n1''
     = Some (0.8 - decay_rate * (0.8 - 0.5))"
proof -
  have h: "node_reputations (snd (get_reputation new_ReputationSystem ''n1'')) ''n1'' = Some 0.8"
    by (simp add: get_reputation_def default_reputation_def new_ReputationSystem_def)
  have r: "(0::real) \<le> 0.8" "(0.8::real) \<le> 1" by simp_all
  from apply_time_decay_proportional[OF h r] h r show ?thesis by blast
qed

text \<open>
  \<^bold>\<open>C10.\<close> For an event type that is none of the nine keys of \<open>reputation_weights\<close>,
  \<open>update_reputation\<close> returns the state it was given: no reputation changes, not even the
  default of an unseen node is stored, and no event is appended.
\<close>

theorem update_reputation_unknown_event:
  assumes "etype \<notin> {''consensus_success'', ''consensus_failure'', ''data_quality_high'',
      ''data_quality_low'', ''uptime_good'', ''uptime_poor'', ''malicious_behavior'',
      ''stake_increase'', ''stake_slash''}"
  shows "update_reputation self nid etype dets now = self"
proof -
  from assms have "reputation_weights etype = None"
    by (simp add: reputation_weights_def)
  then show ?thesis by (simp add: update_reputation_def)
qed

theorem update_reputation_unknown_event_witness:
  "''sensor_offline'' \<notin> {''consensus_success'', ''consensus_failure'', ''data_quality_high'',
      ''data_quality_low'', ''uptime_good'', ''uptime_poor'', ''malicious_behavior'',
      ''stake_increase'', ''stake_slash''} \<and>
   update_reputation (snd (get_reputation new_ReputationSystem ''n1'')) ''n1'' ''sensor_offline'' [] 10
     = snd (get_reputation new_ReputationSystem ''n1'') \<and>
   node_reputations
     (update_reputation (snd (get_reputation new_ReputationSystem ''n1'')) ''n1'' ''sensor_offline'' [] 10)
     ''n1'' = Some 0.8 \<and>
   reputation_events
     (update_reputation (snd (get_reputation new_ReputationSystem ''n1'')) ''n1'' ''sensor_offline'' [] 10)
     = []"
proof -
  have h: "''sensor_offline'' \<notin> {''consensus_success'', ''consensus_failure'', ''data_quality_high'',
      ''data_quality_low'', ''uptime_good'', ''uptime_poor'', ''malicious_behavior'',
      ''stake_increase'', ''stake_slash''}" by simp
  from update_reputation_unknown_event[OF h,
      of "snd (get_reputation new_ReputationSystem ''n1'')" "''n1''" "[]" 10] h
  show ?thesis by (simp add: get_reputation_def new_ReputationSystem_def default_reputation_def)
qed

section \<open>Slashing\<close>




lemma slash_node_not_sent:
  "send_transaction w = None \<Longrightarrow> slash_node w self target amt rsn = (False, self)"
  by (simp add: slash_node_def Let_def)





section \<open>Histograms and percentiles\<close>

text \<open>The key of a labelled histogram: the labels sorted, joined after the name.\<close>

lemma histogram_key_labels:
  "histogram_key ''lat'' [(''b'', ''2''), (''a'', ''1'')] = ''lat_a=1_b=2''"
  by code_simp














end
